theory Spec2Isabelle
  imports Complex_Main
begin

section \<open>Floating-point values\<close>

text \<open>
  The program computes with C++ \<^verbatim>\<open>float\<close> (and, in a few mixed expressions,
  \<^verbatim>\<open>double\<close>).  The model keeps the special values of IEEE-754 that the control
  flow of the tracer depends on: both signed zeros, both infinities and NaN.  Finite
  results are exact real numbers: rounding, overflow and underflow of finite results
  are not modelled, and \<^verbatim>\<open>float\<close> and \<^verbatim>\<open>double\<close> coincide.
  \<open>Fin 0\<close> is the positive zero and \<open>NZero\<close> the negative one.
\<close>

datatype fl = Fin real | NZero | PInf | MInf | NaN

fun fl_sign :: "fl \<Rightarrow> bool" where
  "fl_sign (Fin r) = (r < 0)"
| "fl_sign NZero = True"
| "fl_sign PInf = False"
| "fl_sign MInf = True"
| "fl_sign NaN = False"

fun fl_val :: "fl \<Rightarrow> real" where
  "fl_val (Fin r) = r"
| "fl_val NZero = 0"
| "fl_val PInf = 0"
| "fl_val MInf = 0"
| "fl_val NaN = 0"

fun is_fin :: "fl \<Rightarrow> bool" where
  "is_fin (Fin r) = True"
| "is_fin NZero = True"
| "is_fin PInf = False"
| "is_fin MInf = False"
| "is_fin NaN = False"

fun is_inf :: "fl \<Rightarrow> bool" where
  "is_inf (Fin r) = False"
| "is_inf NZero = False"
| "is_inf PInf = True"
| "is_inf MInf = True"
| "is_inf NaN = False"

fun is_zero :: "fl \<Rightarrow> bool" where
  "is_zero (Fin r) = (r = 0)"
| "is_zero NZero = True"
| "is_zero PInf = False"
| "is_zero MInf = False"
| "is_zero NaN = False"

definition signed_zero :: "bool \<Rightarrow> fl" where
  "signed_zero s = (if s then NZero else Fin 0)"

definition signed_inf :: "bool \<Rightarrow> fl" where
  "signed_inf s = (if s then MInf else PInf)"

text \<open>A finite result with the sign that a zero result takes.\<close>

definition fl_of :: "bool \<Rightarrow> real \<Rightarrow> fl" where
  "fl_of s r = (if r = 0 then signed_zero s else Fin r)"

fun fl_neg :: "fl \<Rightarrow> fl" where
  "fl_neg (Fin r) = (if r = 0 then NZero else Fin (- r))"
| "fl_neg NZero = Fin 0"
| "fl_neg PInf = MInf"
| "fl_neg MInf = PInf"
| "fl_neg NaN = NaN"

definition fl_add :: "fl \<Rightarrow> fl \<Rightarrow> fl" where
  "fl_add a b =
     (if a = NaN \<or> b = NaN then NaN
      else if is_inf a then (if is_inf b \<and> a \<noteq> b then NaN else a)
      else if is_inf b then b
      else fl_of (fl_sign a \<and> fl_sign b) (fl_val a + fl_val b))"

definition fl_sub :: "fl \<Rightarrow> fl \<Rightarrow> fl" where
  "fl_sub a b = fl_add a (fl_neg b)"

definition fl_mul :: "fl \<Rightarrow> fl \<Rightarrow> fl" where
  "fl_mul a b =
     (if a = NaN \<or> b = NaN then NaN
      else if is_inf a \<or> is_inf b then
        (if is_zero a \<or> is_zero b then NaN else signed_inf (fl_sign a \<noteq> fl_sign b))
      else fl_of (fl_sign a \<noteq> fl_sign b) (fl_val a * fl_val b))"

definition fl_div :: "fl \<Rightarrow> fl \<Rightarrow> fl" where
  "fl_div a b =
     (if a = NaN \<or> b = NaN then NaN
      else if is_inf a then
        (if is_inf b then NaN else signed_inf (fl_sign a \<noteq> fl_sign b))
      else if is_inf b then signed_zero (fl_sign a \<noteq> fl_sign b)
      else if is_zero b then
        (if is_zero a then NaN else signed_inf (fl_sign a \<noteq> fl_sign b))
      else fl_of (fl_sign a \<noteq> fl_sign b) (fl_val a / fl_val b))"

fun fl_sqrt :: "fl \<Rightarrow> fl" where
  "fl_sqrt (Fin r) = (if r < 0 then NaN else Fin (sqrt r))"
| "fl_sqrt NZero = NZero"
| "fl_sqrt PInf = PInf"
| "fl_sqrt MInf = NaN"
| "fl_sqrt NaN = NaN"

fun fl_abs :: "fl \<Rightarrow> fl" where
  "fl_abs (Fin r) = Fin \<bar>r\<bar>"
| "fl_abs NZero = Fin 0"
| "fl_abs PInf = PInf"
| "fl_abs MInf = PInf"
| "fl_abs NaN = NaN"

text \<open>Comparisons: every comparison with NaN is false, and the two zeros are equal.\<close>

definition fl_lt :: "fl \<Rightarrow> fl \<Rightarrow> bool" where
  "fl_lt a b =
     (if a = NaN \<or> b = NaN then False
      else if a = PInf \<or> b = MInf then False
      else if a = MInf \<or> b = PInf then True
      else fl_val a < fl_val b)"

definition fl_gt :: "fl \<Rightarrow> fl \<Rightarrow> bool" where
  "fl_gt a b = fl_lt b a"

definition fl_eq :: "fl \<Rightarrow> fl \<Rightarrow> bool" where
  "fl_eq a b =
     (if a = NaN \<or> b = NaN then False
      else if is_inf a \<or> is_inf b then a = b
      else fl_val a = fl_val b)"

definition fl_le :: "fl \<Rightarrow> fl \<Rightarrow> bool" where
  "fl_le a b = (fl_lt a b \<or> fl_eq a b)"

definition fl_ge :: "fl \<Rightarrow> fl \<Rightarrow> bool" where
  "fl_ge a b = fl_le b a"

text \<open>
  Conversion to \<^verbatim>\<open>int\<close> truncates toward zero.  For NaN, the infinities and values
  outside the 32-bit range the conversion is undefined in C++; the model then takes
  \<open>- 2\<^sup>3\<^sup>1\<close>, the result of the x86 conversion instruction.
\<close>

definition truncate_real :: "real \<Rightarrow> int" where
  "truncate_real r = (if 0 \<le> r then \<lfloor>r\<rfloor> else \<lceil>r\<rceil>)"

definition fl_to_int :: "fl \<Rightarrow> int" where
  "fl_to_int a =
     (if is_fin a \<and> - 2147483649 < fl_val a \<and> fl_val a < 2147483648
      then truncate_real (fl_val a) else - 2147483648)"





text \<open>
  \<^verbatim>\<open>std::max(a, b)\<close> is \<^verbatim>\<open>(a < b) ? b : a\<close> and \<^verbatim>\<open>std::min(a, b)\<close> is
  \<^verbatim>\<open>(b < a) ? b : a\<close>: with a NaN argument both return the first argument.
\<close>

definition std_max :: "fl \<Rightarrow> fl \<Rightarrow> fl" where
  "std_max a b = (if fl_lt a b then b else a)"

definition std_min :: "fl \<Rightarrow> fl \<Rightarrow> fl" where
  "std_min a b = (if fl_lt b a then b else a)"

section \<open>Vectors\<close>

text \<open>
  \<^verbatim>\<open>struct vec3 { float x, y, z; }\<close> with its operators.  The fields are named
  \<open>vx\<close>, \<open>vy\<close>, \<open>vz\<close> here, \<open>norm3\<close> is \<^verbatim>\<open>norm()\<close>, and \<open>vec a b c\<close> is the vector of
  three finite numbers.
\<close>

record vec3 =
  vx :: fl
  vy :: fl
  vz :: fl

definition vec :: "real \<Rightarrow> real \<Rightarrow> real \<Rightarrow> vec3" where
  "vec a b c = \<lparr>vx = Fin a, vy = Fin b, vz = Fin c\<rparr>"

definition vscale :: "vec3 \<Rightarrow> fl \<Rightarrow> vec3" where
  "vscale u v = \<lparr>vx = fl_mul (vx u) v, vy = fl_mul (vy u) v, vz = fl_mul (vz u) v\<rparr>"

definition vdot :: "vec3 \<Rightarrow> vec3 \<Rightarrow> fl" where
  "vdot u v = fl_add (fl_add (fl_mul (vx u) (vx v)) (fl_mul (vy u) (vy v))) (fl_mul (vz u) (vz v))"

definition vadd :: "vec3 \<Rightarrow> vec3 \<Rightarrow> vec3" where
  "vadd u v = \<lparr>vx = fl_add (vx u) (vx v), vy = fl_add (vy u) (vy v), vz = fl_add (vz u) (vz v)\<rparr>"

definition vsub :: "vec3 \<Rightarrow> vec3 \<Rightarrow> vec3" where
  "vsub u v = \<lparr>vx = fl_sub (vx u) (vx v), vy = fl_sub (vy u) (vy v), vz = fl_sub (vz u) (vz v)\<rparr>"

definition vneg :: "vec3 \<Rightarrow> vec3" where
  "vneg u = \<lparr>vx = fl_neg (vx u), vy = fl_neg (vy u), vz = fl_neg (vz u)\<rparr>"

definition norm3 :: "vec3 \<Rightarrow> fl" where
  "norm3 u = fl_sqrt (fl_add (fl_add (fl_mul (vx u) (vx u)) (fl_mul (vy u) (vy u))) (fl_mul (vz u) (vz u)))"

definition normalized :: "vec3 \<Rightarrow> vec3" where
  "normalized u = vscale u (fl_div (Fin 1) (norm3 u))"

section \<open>Scene data\<close>

text \<open>
  \<^verbatim>\<open>struct Material\<close> with its default member initialisers, \<^verbatim>\<open>struct Sphere\<close>,
  \<^verbatim>\<open>struct Cube\<close>, and the compiled-in scene.  The fixed-size array \<^verbatim>\<open>albedo[4]\<close>
  is a list of four entries, read at the constant indices 0 to 3.
\<close>

record Material =
  refractive_index :: fl
  albedo :: "fl list"
  diffuse_color :: vec3
  specular_exponent :: fl

definition default_Material :: Material where
  "default_Material =
     \<lparr>refractive_index = Fin 1, albedo = [Fin 2, Fin 0, Fin 0, Fin 0],
      diffuse_color = vec 0 0 0, specular_exponent = Fin 0\<rparr>"

record Sphere =
  center :: vec3
  radius :: fl
  material :: Material

record Cube =
  center :: vec3
  size :: fl
  material :: Material

definition marble :: Material where
  "marble = \<lparr>refractive_index = Fin 1, albedo = [Fin (8/10), Fin (2/10), Fin 0, Fin 0],
     diffuse_color = vec (5/10) (5/10) (5/10), specular_exponent = Fin 30\<rparr>"

definition water :: Material where
  "water = \<lparr>refractive_index = Fin (13/10), albedo = [Fin (1/10), Fin (4/10), Fin (7/10), Fin (5/10)],
     diffuse_color = vec (2/10) (5/10) (8/10), specular_exponent = Fin 100\<rparr>"

definition shiny_red :: Material where
  "shiny_red = \<lparr>refractive_index = Fin 1, albedo = [Fin (12/10), Fin (3/10), Fin 0, Fin (1/10)],
     diffuse_color = vec (7/10) (1/10) (1/10), specular_exponent = Fin 200\<rparr>"

definition bronze :: Material where
  "bronze = \<lparr>refractive_index = Fin 1, albedo = [Fin (4/10), Fin (3/10), Fin (2/10), Fin (1/10)],
     diffuse_color = vec (8/10) (7/10) (5/10), specular_exponent = Fin 500\<rparr>"

definition spheres :: "Sphere list" where
  "spheres =
     [\<lparr>Sphere.center = vec (- 2) 1 (- 15), radius = Fin (15/10), material = marble\<rparr>,
      \<lparr>Sphere.center = vec 0 4 (- 12), radius = Fin 2, material = water\<rparr>,
      \<lparr>Sphere.center = vec 2 0 (- 18), radius = Fin (25/10), material = shiny_red\<rparr>,
      \<lparr>Sphere.center = vec 5 3 (- 20), radius = Fin (35/10), material = bronze\<rparr>]"

definition cube :: Cube where
  "cube = \<lparr>Cube.center = vec 0 (- 1) (- 10), size = Fin 2, material = water\<rparr>"


section \<open>Reflection and refraction\<close>

definition reflect :: "vec3 \<Rightarrow> vec3 \<Rightarrow> vec3" where
  "reflect I N = vsub I (vscale (vscale N (Fin 2)) (vdot I N))"

text \<open>
  \<^verbatim>\<open>refract\<close> calls itself when \<open>cosi < 0\<close>.  Nothing in the source bounds that
  recursion, so the model is a partial function: \<open>None\<close> stands for a call that does
  not return.
\<close>

definition refract_cosi :: "vec3 \<Rightarrow> vec3 \<Rightarrow> fl" where
  "refract_cosi I N = fl_neg (std_max (Fin (- 1)) (std_min (Fin 1) (vdot I N)))"

definition refract_k :: "fl \<Rightarrow> fl \<Rightarrow> fl" where
  "refract_k eta cosi =
     fl_sub (Fin 1) (fl_mul (fl_mul eta eta) (fl_sub (Fin 1) (fl_mul cosi cosi)))"

partial_function (option) refract :: "vec3 \<Rightarrow> vec3 \<Rightarrow> fl \<Rightarrow> fl \<Rightarrow> vec3 option" where
  "refract I N eta_t eta_i =
     (let cosi = refract_cosi I N in
      if fl_lt cosi (Fin 0) then refract I (vneg N) eta_i eta_t
      else
        let eta = fl_div eta_i eta_t;
            k = refract_k eta cosi
        in Some (if fl_lt k (Fin 0) then vec 1 0 0
                 else vadd (vscale I eta)
                        (vscale N (fl_sub (fl_mul eta cosi) (fl_sqrt k)))))"

section \<open>Intersection routines\<close>

definition ray_sphere_intersect :: "vec3 \<Rightarrow> vec3 \<Rightarrow> Sphere \<Rightarrow> bool \<times> fl" where
  "ray_sphere_intersect orig dir s =
     (let L = vsub (Sphere.center s) orig;
          tca = vdot L dir;
          d2 = fl_sub (vdot L L) (fl_mul tca tca)
      in if fl_gt d2 (fl_mul (radius s) (radius s)) then (False, Fin 0)
         else
           let thc = fl_sqrt (fl_sub (fl_mul (radius s) (radius s)) d2);
               t0 = fl_sub tca thc;
               t1 = fl_add tca thc
           in if fl_gt t0 (Fin (1/1000)) then (True, t0)
              else if fl_gt t1 (Fin (1/1000)) then (True, t1)
              else (False, Fin 0))"

text \<open>
  The two slab parameters of one axis, as the source writes them:
  \<^verbatim>\<open>(c.center.x - c.size / 2 - orig.x) / dir.x\<close> and
  \<^verbatim>\<open>(c.center.x + c.size / 2 - orig.x) / dir.x\<close>; \<open>swap_gt\<close> is
  \<^verbatim>\<open>if (tmin > tmax) std::swap(tmin, tmax)\<close>.
\<close>

definition slab_lo :: "fl \<Rightarrow> fl \<Rightarrow> fl \<Rightarrow> fl \<Rightarrow> fl" where
  "slab_lo cc sz oc dc = fl_div (fl_sub (fl_sub cc (fl_div sz (Fin 2))) oc) dc"

definition slab_hi :: "fl \<Rightarrow> fl \<Rightarrow> fl \<Rightarrow> fl \<Rightarrow> fl" where
  "slab_hi cc sz oc dc = fl_div (fl_sub (fl_add cc (fl_div sz (Fin 2))) oc) dc"

definition swap_gt :: "fl \<times> fl \<Rightarrow> fl \<times> fl" where
  "swap_gt p = (if fl_gt (fst p) (snd p) then (snd p, fst p) else p)"

definition cube_miss :: "bool \<times> fl \<times> vec3" where
  "cube_miss = (False, Fin 0, vec 0 0 0)"

definition ray_cube_intersect :: "vec3 \<Rightarrow> vec3 \<Rightarrow> Cube \<Rightarrow> bool \<times> fl \<times> vec3" where
  "ray_cube_intersect orig dir c =
     (let cc = Cube.center c; sz = size c;
          (tmin, tmax) = swap_gt (slab_lo (vx cc) sz (vx orig) (vx dir),
                                  slab_hi (vx cc) sz (vx orig) (vx dir));
          (tymin, tymax) = swap_gt (slab_lo (vy cc) sz (vy orig) (vy dir),
                                    slab_hi (vy cc) sz (vy orig) (vy dir))
      in if fl_gt tmin tymax \<or> fl_gt tymin tmax then cube_miss
         else
           let tmin = (if fl_gt tymin tmin then tymin else tmin);
               tmax = (if fl_lt tymax tmax then tymax else tmax);
               (tzmin, tzmax) = swap_gt (slab_lo (vz cc) sz (vz orig) (vz dir),
                                         slab_hi (vz cc) sz (vz orig) (vz dir))
           in if fl_gt tmin tzmax \<or> fl_gt tzmin tmax then cube_miss
              else
                let tmin = (if fl_gt tzmin tmin then tzmin else tmin);
                    tmax = (if fl_lt tzmax tmax then tzmax else tmax)
                in if fl_gt tmin (Fin 0) then
                     (True, tmin,
                      \<lparr>vx = (if fl_eq tmin (slab_lo (vx cc) sz (vx orig) (vx dir)) \<or>
                                fl_eq tmin (slab_hi (vx cc) sz (vx orig) (vx dir))
                             then Fin 1 else Fin 0),
                       vy = (if fl_eq tmin (slab_lo (vy cc) sz (vy orig) (vy dir)) \<or>
                                fl_eq tmin (slab_hi (vy cc) sz (vy orig) (vy dir))
                             then Fin 1 else Fin 0),
                       vz = (if fl_eq tmin (slab_lo (vz cc) sz (vz orig) (vz dir)) \<or>
                                fl_eq tmin (slab_hi (vz cc) sz (vz orig) (vz dir))
                             then Fin 1 else Fin 0)\<rparr>)
                   else cube_miss)"

section \<open>Scene intersection\<close>

text \<open>
  The local variables \<^verbatim>\<open>nearest_dist\<close>, \<^verbatim>\<open>pt\<close>, \<^verbatim>\<open>N\<close> and
  \<^verbatim>\<open>material\<close> of \<^verbatim>\<open>scene_intersect\<close> form the state that the plane test, the
  loop over the spheres and the cube test update in turn.
\<close>

record scene_state =
  nearest_dist :: fl
  pt :: vec3
  nrm :: vec3
  mat :: Material

definition scene_init :: scene_state where
  "scene_init = \<lparr>nearest_dist = Fin 10000000000, pt = vec 0 0 0, nrm = vec 0 0 0,
                  mat = default_Material\<rparr>"

text \<open>
  \<^verbatim>\<open>(int(.5 * pt.x + 1000) + int(.5 * pt.z)) & 1 ? vec3{.4, .4, .4} : vec3{.4, .3, .2}\<close>.
  The sum of the two \<^verbatim>\<open>int\<close>s is far from the 32-bit bounds wherever the source
  evaluates it, so it is an integer sum; the lowest bit of a two's complement number
  is set exactly when the number is odd.
\<close>

definition checker :: "vec3 \<Rightarrow> vec3" where
  "checker p =
     (if odd (fl_to_int (fl_add (fl_mul (Fin (5/10)) (vx p)) (Fin 1000)) +
              fl_to_int (fl_mul (Fin (5/10)) (vz p)))
      then vec (4/10) (4/10) (4/10) else vec (4/10) (3/10) (2/10))"

definition plane_test :: "vec3 \<Rightarrow> vec3 \<Rightarrow> scene_state \<Rightarrow> scene_state" where
  "plane_test orig dir st =
     (if fl_gt (fl_abs (vy dir)) (Fin (1/1000)) then
        let d = fl_div (fl_neg (fl_add (vy orig) (Fin 3))) (vy dir);
            p = vadd orig (vscale dir d)
        in if fl_gt d (Fin (1/1000)) \<and> fl_lt d (nearest_dist st) \<and>
              fl_lt (fl_abs (vx p)) (Fin 12) \<and> fl_lt (vz p) (Fin (- 12)) \<and>
              fl_gt (vz p) (Fin (- 28))
           then st\<lparr>nearest_dist := d, pt := p, nrm := vec 0 1 0,
                   mat := (mat st)\<lparr>diffuse_color := checker p\<rparr>\<rparr>
           else st
      else st)"

definition sphere_test :: "vec3 \<Rightarrow> vec3 \<Rightarrow> scene_state \<Rightarrow> Sphere \<Rightarrow> scene_state" where
  "sphere_test orig dir st s =
     (let (intersection, d) = ray_sphere_intersect orig dir s
      in if \<not> intersection \<or> fl_gt d (nearest_dist st) then st
         else
           let p = vadd orig (vscale dir d)
           in st\<lparr>nearest_dist := d, pt := p,
                 nrm := normalized (vsub p (Sphere.center s)),
                 mat := Sphere.material s\<rparr>)"

definition cube_test :: "vec3 \<Rightarrow> vec3 \<Rightarrow> scene_state \<Rightarrow> scene_state" where
  "cube_test orig dir st =
     (let (cube_hit, cube_dist, cube_norm) = ray_cube_intersect orig dir cube
      in if cube_hit \<and> fl_lt cube_dist (nearest_dist st)
         then st\<lparr>nearest_dist := cube_dist, pt := vadd orig (vscale dir cube_dist),
                 nrm := cube_norm, mat := Cube.material cube\<rparr>
         else st)"

definition scene_nearest :: "vec3 \<Rightarrow> vec3 \<Rightarrow> scene_state" where
  "scene_nearest orig dir =
     cube_test orig dir (foldl (sphere_test orig dir) (plane_test orig dir scene_init) spheres)"

definition scene_intersect :: "vec3 \<Rightarrow> vec3 \<Rightarrow> bool \<times> vec3 \<times> vec3 \<times> Material" where
  "scene_intersect orig dir =
     (let st = scene_nearest orig dir
      in (fl_lt (nearest_dist st) (Fin 1000), pt st, nrm st, mat st))"

section \<open>The recursive shader\<close>

definition background :: vec3 where
  "background = vec (2/10) (7/10) (8/10)"


definition shade :: "Material \<Rightarrow> fl \<times> fl \<Rightarrow> vec3 \<Rightarrow> vec3 \<Rightarrow> vec3" where
  "shade m acc reflect_color refract_color =
     vadd (vadd (vadd (vscale (vscale (diffuse_color m) (fst acc)) (albedo m ! 0))
                      (vscale (vscale (vec 1 1 1) (snd acc)) (albedo m ! 1)))
                (vscale reflect_color (albedo m ! 2)))
          (vscale refract_color (albedo m ! 3))"


section \<open>The driver: image output\<close>


definition pix_dir_x :: "int \<Rightarrow> int \<Rightarrow> fl" where
  "pix_dir_x width pix = Fin (of_int (pix mod width) + 1/2 - of_int width / 2)"









section \<open>Vocabulary of the specification\<close>




text \<open>
  The candidates of \<^verbatim>\<open>scene_intersect\<close> in the words of the specification.  The
  ground plane at \<open>y = - 3\<close> is tested only when \<open>|dir.y| > 0.001\<close>, and its distance is
  a candidate only when it exceeds 0.001 and the hit point has \<open>x\<close> in \<open>(- 12, 12)\<close> and
  \<open>z\<close> in \<open>(- 28, - 12)\<close>; every sphere and the box contribute the distance of their
  intersection routine when it reports a hit; the sentinel \<open>10\<^sup>1\<^sup>0\<close> stands first.
\<close>

definition plane_dist :: "vec3 \<Rightarrow> vec3 \<Rightarrow> fl" where
  "plane_dist orig dir = fl_div (fl_neg (fl_add (vy orig) (Fin 3))) (vy dir)"

definition plane_point :: "vec3 \<Rightarrow> vec3 \<Rightarrow> vec3" where
  "plane_point orig dir = vadd orig (vscale dir (plane_dist orig dir))"

definition plane_hits :: "vec3 \<Rightarrow> vec3 \<Rightarrow> fl list" where
  "plane_hits orig dir =
     (if fl_gt (fl_abs (vy dir)) (Fin (1/1000)) \<and>
         fl_gt (plane_dist orig dir) (Fin (1/1000)) \<and>
         fl_lt (Fin (- 12)) (vx (plane_point orig dir)) \<and>
         fl_lt (vx (plane_point orig dir)) (Fin 12) \<and>
         fl_lt (Fin (- 28)) (vz (plane_point orig dir)) \<and>
         fl_lt (vz (plane_point orig dir)) (Fin (- 12))
      then [plane_dist orig dir] else [])"

definition sphere_hits :: "vec3 \<Rightarrow> vec3 \<Rightarrow> Sphere \<Rightarrow> fl list" where
  "sphere_hits orig dir s =
     (if fst (ray_sphere_intersect orig dir s) then [snd (ray_sphere_intersect orig dir s)]
      else [])"

definition cube_hits :: "vec3 \<Rightarrow> vec3 \<Rightarrow> fl list" where
  "cube_hits orig dir =
     (if fst (ray_cube_intersect orig dir cube) then [fst (snd (ray_cube_intersect orig dir cube))]
      else [])"

definition candidates :: "vec3 \<Rightarrow> vec3 \<Rightarrow> fl list" where
  "candidates orig dir =
     Fin 10000000000 # plane_hits orig dir @ concat (map (sphere_hits orig dir) spheres) @
       cube_hits orig dir"

text \<open>\<open>least n cs\<close>: \<open>n\<close> is one of \<open>cs\<close> and no element of \<open>cs\<close> is smaller.\<close>

definition least :: "fl \<Rightarrow> fl list \<Rightarrow> bool" where
  "least n cs = (n \<in> set cs \<and> list_all (fl_le n) cs)"

text \<open>
  The ground plane is the nearest hit: its candidate is accepted, is below the sentinel,
  is strictly nearer than every sphere hit (a sphere at the same distance overwrites
  the plane) and at least as near as the cube hit (the cube must be strictly nearer to
  overwrite).
\<close>

definition plane_nearest :: "vec3 \<Rightarrow> vec3 \<Rightarrow> bool" where
  "plane_nearest orig dir =
     (plane_hits orig dir \<noteq> [] \<and>
      fl_lt (plane_dist orig dir) (Fin 10000000000) \<and>
      list_all (fl_lt (plane_dist orig dir)) (concat (map (sphere_hits orig dir) spheres)) \<and>
      list_all (fl_le (plane_dist orig dir)) (cube_hits orig dir))"

text \<open>
  The quantities of the box test in the words of the specification: the ordered
  interval of slab parameters of each axis, the comparisons that show two intervals
  disjoint, and the combined \<open>tmin\<close>, the largest of the three near values as the source
  accumulates it.
\<close>

definition axis_interval :: "fl \<Rightarrow> fl \<Rightarrow> fl \<Rightarrow> fl \<Rightarrow> fl \<times> fl" where
  "axis_interval cc sz oc dc = swap_gt (slab_lo cc sz oc dc, slab_hi cc sz oc dc)"

definition x_interval :: "vec3 \<Rightarrow> vec3 \<Rightarrow> Cube \<Rightarrow> fl \<times> fl" where
  "x_interval orig dir c = axis_interval (vx (Cube.center c)) (size c) (vx orig) (vx dir)"

definition y_interval :: "vec3 \<Rightarrow> vec3 \<Rightarrow> Cube \<Rightarrow> fl \<times> fl" where
  "y_interval orig dir c = axis_interval (vy (Cube.center c)) (size c) (vy orig) (vy dir)"

definition z_interval :: "vec3 \<Rightarrow> vec3 \<Rightarrow> Cube \<Rightarrow> fl \<times> fl" where
  "z_interval orig dir c = axis_interval (vz (Cube.center c)) (size c) (vz orig) (vz dir)"

definition xy_tmin :: "vec3 \<Rightarrow> vec3 \<Rightarrow> Cube \<Rightarrow> fl" where
  "xy_tmin orig dir c =
     (if fl_gt (fst (y_interval orig dir c)) (fst (x_interval orig dir c))
      then fst (y_interval orig dir c) else fst (x_interval orig dir c))"

definition xy_tmax :: "vec3 \<Rightarrow> vec3 \<Rightarrow> Cube \<Rightarrow> fl" where
  "xy_tmax orig dir c =
     (if fl_lt (snd (y_interval orig dir c)) (snd (x_interval orig dir c))
      then snd (y_interval orig dir c) else snd (x_interval orig dir c))"

definition cube_tmin :: "vec3 \<Rightarrow> vec3 \<Rightarrow> Cube \<Rightarrow> fl" where
  "cube_tmin orig dir c =
     (if fl_gt (fst (z_interval orig dir c)) (xy_tmin orig dir c)
      then fst (z_interval orig dir c) else xy_tmin orig dir c)"

definition shown_disjoint :: "vec3 \<Rightarrow> vec3 \<Rightarrow> Cube \<Rightarrow> bool" where
  "shown_disjoint orig dir c =
     (fl_gt (fst (x_interval orig dir c)) (snd (y_interval orig dir c)) \<or>
      fl_gt (fst (y_interval orig dir c)) (snd (x_interval orig dir c)) \<or>
      fl_gt (xy_tmin orig dir c) (snd (z_interval orig dir c)) \<or>
      fl_gt (fst (z_interval orig dir c)) (xy_tmax orig dir c))"

definition no_nan_slab :: "vec3 \<Rightarrow> vec3 \<Rightarrow> Cube \<Rightarrow> bool" where
  "no_nan_slab orig dir c =
     (slab_lo (vx (Cube.center c)) (size c) (vx orig) (vx dir) \<noteq> NaN \<and>
      slab_hi (vx (Cube.center c)) (size c) (vx orig) (vx dir) \<noteq> NaN \<and>
      slab_lo (vy (Cube.center c)) (size c) (vy orig) (vy dir) \<noteq> NaN \<and>
      slab_hi (vy (Cube.center c)) (size c) (vy orig) (vy dir) \<noteq> NaN \<and>
      slab_lo (vz (Cube.center c)) (size c) (vz orig) (vz dir) \<noteq> NaN \<and>
      slab_hi (vz (Cube.center c)) (size c) (vz orig) (vz dir) \<noteq> NaN)"






text \<open>
  Vectors whose components are all finite, finite vectors of length 1, and vectors
  whose components are all NaN (the result of normalising the zero vector).
\<close>

definition finite_vec :: "vec3 \<Rightarrow> bool" where
  "finite_vec v = (is_fin (vx v) \<and> is_fin (vy v) \<and> is_fin (vz v))"





definition fl_same :: "fl \<Rightarrow> fl \<Rightarrow> bool" where
  "fl_same a b = (a = b \<or> is_zero a \<and> is_zero b)"

section \<open>Evaluation rules\<close>


lemmas vec_defs = vec_def vscale_def vdot_def vadd_def vsub_def vneg_def norm3_def normalized_def

text \<open>The operations on explicit values, for evaluating the program on concrete rays.\<close>

lemma fl_add_eval:
  "fl_add (Fin a) (Fin b) = Fin (a + b)"
  "fl_add (Fin a) NZero = Fin a"
  "fl_add NZero (Fin b) = Fin b"
  "fl_add NZero NZero = NZero"
  by (simp_all add: fl_add_def fl_of_def signed_zero_def)

lemma fl_sub_eval:
  "fl_sub (Fin a) (Fin b) = Fin (a - b)"
  "fl_sub (Fin a) NZero = Fin a"
  "fl_sub NZero (Fin b) = (if b = 0 then NZero else Fin (- b))"
  "fl_sub NZero NZero = Fin 0"
  by (simp_all add: fl_sub_def fl_add_def fl_of_def signed_zero_def)

lemma fl_mul_eval:
  "fl_mul (Fin a) (Fin b) = (if a * b = 0 \<and> (a < 0) \<noteq> (b < 0) then NZero else Fin (a * b))"
  "fl_mul (Fin a) NZero = (if a < 0 then Fin 0 else NZero)"
  "fl_mul NZero (Fin b) = (if b < 0 then Fin 0 else NZero)"
  "fl_mul NZero NZero = Fin 0"
  by (auto simp add: fl_mul_def fl_of_def signed_zero_def)

lemma fl_div_eval:
  "fl_div (Fin a) (Fin b) =
     (if b = 0 then (if a = 0 then NaN else if a < 0 then MInf else PInf)
      else if a = 0 \<and> b < 0 then NZero else Fin (a / b))"
  "fl_div (Fin a) NZero = (if a = 0 then NaN else if a < 0 then PInf else MInf)"
  "fl_div NZero (Fin b) = (if b = 0 then NaN else if b < 0 then Fin 0 else NZero)"
  by (auto simp add: fl_div_def fl_of_def signed_zero_def signed_inf_def)

lemma fl_lt_eval:
  "fl_lt (Fin a) (Fin b) = (a < b)"
  "fl_lt (Fin a) NZero = (a < 0)"
  "fl_lt NZero (Fin b) = (0 < b)"
  "fl_lt NZero NZero = False"
  "fl_lt (Fin a) PInf = True" "fl_lt NZero PInf = True" "fl_lt MInf PInf = True"
  "fl_lt MInf (Fin b) = True" "fl_lt MInf NZero = True"
  "fl_lt PInf c = False" "fl_lt c MInf = False" "fl_lt NaN c = False" "fl_lt c NaN = False"
  by (simp_all add: fl_lt_def)

lemma fl_eq_eval:
  "fl_eq (Fin a) (Fin b) = (a = b)"
  "fl_eq (Fin a) NZero = (a = 0)"
  "fl_eq NZero (Fin b) = (b = 0)"
  "fl_eq NZero NZero = True"
  "fl_eq PInf PInf = True" "fl_eq MInf MInf = True"
  "fl_eq PInf MInf = False" "fl_eq MInf PInf = False"
  "fl_eq (Fin a) PInf = False" "fl_eq (Fin a) MInf = False"
  "fl_eq PInf (Fin a) = False" "fl_eq MInf (Fin a) = False"
  "fl_eq NZero PInf = False" "fl_eq NZero MInf = False"
  "fl_eq PInf NZero = False" "fl_eq MInf NZero = False"
  "fl_eq NaN c = False" "fl_eq c NaN = False"
  by (auto simp add: fl_eq_def)

lemmas fl_eval = fl_add_eval fl_sub_eval fl_mul_eval fl_div_eval fl_lt_eval fl_eq_eval
  fl_gt_def fl_le_def fl_ge_def std_max_def std_min_def

section \<open>Refraction\<close>



section \<open>Arithmetic on finite values\<close>

text \<open>
  On finite operands the operations are those of the real numbers; only the sign of a
  zero result needs the IEEE rules.
\<close>

lemma is_fin_fl_of [simp]: "is_fin (fl_of s r)"
  by (simp add: fl_of_def signed_zero_def)

lemma fl_val_fl_of [simp]: "fl_val (fl_of s r) = r"
  by (simp add: fl_of_def signed_zero_def)

lemma fl_of_nonzero: "r \<noteq> 0 \<Longrightarrow> fl_of s r = Fin r"
  by (simp add: fl_of_def)

lemma fin_cases: "is_fin a \<Longrightarrow> (\<And>r. a = Fin r \<Longrightarrow> P) \<Longrightarrow> (a = NZero \<Longrightarrow> P) \<Longrightarrow> P"
  by (cases a) auto

lemma fin_neg [simp]: "is_fin a \<Longrightarrow> is_fin (fl_neg a)" "is_fin a \<Longrightarrow> fl_val (fl_neg a) = - fl_val a"
  by (cases a; simp)+

lemma fin_add [simp]:
  "is_fin a \<Longrightarrow> is_fin b \<Longrightarrow> is_fin (fl_add a b)"
  "is_fin a \<Longrightarrow> is_fin b \<Longrightarrow> fl_val (fl_add a b) = fl_val a + fl_val b"
  by (cases a; cases b; simp add: fl_add_def)+

lemma fin_sub [simp]:
  "is_fin a \<Longrightarrow> is_fin b \<Longrightarrow> is_fin (fl_sub a b)"
  "is_fin a \<Longrightarrow> is_fin b \<Longrightarrow> fl_val (fl_sub a b) = fl_val a - fl_val b"
  by (simp_all add: fl_sub_def)

lemma fin_mul [simp]:
  "is_fin a \<Longrightarrow> is_fin b \<Longrightarrow> is_fin (fl_mul a b)"
  "is_fin a \<Longrightarrow> is_fin b \<Longrightarrow> fl_val (fl_mul a b) = fl_val a * fl_val b"
  by (cases a; cases b; simp add: fl_mul_def)+

lemma fin_div [simp]:
  "is_fin a \<Longrightarrow> is_fin b \<Longrightarrow> fl_val b \<noteq> 0 \<Longrightarrow> is_fin (fl_div a b)"
  "is_fin a \<Longrightarrow> is_fin b \<Longrightarrow> fl_val b \<noteq> 0 \<Longrightarrow> fl_val (fl_div a b) = fl_val a / fl_val b"
  by (cases a; cases b; simp add: fl_div_def)+

lemma fin_sqrt [simp]:
  "is_fin a \<Longrightarrow> 0 \<le> fl_val a \<Longrightarrow> is_fin (fl_sqrt a)"
  "is_fin a \<Longrightarrow> 0 \<le> fl_val a \<Longrightarrow> fl_val (fl_sqrt a) = sqrt (fl_val a)"
  by (cases a; simp)+




lemma fin_vdot [simp]:
  assumes "is_fin (vx u)" "is_fin (vy u)" "is_fin (vz u)" "is_fin (vx v)" "is_fin (vy v)" "is_fin (vz v)"
  shows "is_fin (vdot u v)"
    and "fl_val (vdot u v) = fl_val (vx u) * fl_val (vx v) + fl_val (vy u) * fl_val (vy v) + fl_val (vz u) * fl_val (vz v)"
  using assms by (simp_all add: vdot_def)

section \<open>Sphere intersection\<close>






section \<open>Scene intersection: evaluation on concrete rays\<close>

lemma sphere_test_miss:
  "\<not> fst (ray_sphere_intersect orig dir s) \<Longrightarrow> sphere_test orig dir st s = st"
  by (cases "ray_sphere_intersect orig dir s") (simp add: sphere_test_def)

lemma foldl_sphere_test_miss:
  "\<forall>s \<in> set ss. \<not> fst (ray_sphere_intersect orig dir s) \<Longrightarrow>
   foldl (sphere_test orig dir) st ss = st"
  by (induction ss arbitrary: st) (simp_all add: sphere_test_miss)

lemmas scene_eval = ray_sphere_intersect_def ray_cube_intersect_def slab_lo_def slab_hi_def
  swap_gt_def cube_miss_def plane_test_def cube_test_def scene_init_def Let_def

text \<open>
  C7.  The claim is that every hit distance accepted by the plane test, by
  \<open>ray_sphere_intersect\<close> and by \<open>ray_cube_intersect\<close> as used by \<open>scene_intersect\<close> is
  strictly greater than 0.001.  The cube test accepts every \<open>tmin > 0\<close>: for the ray
  that starts \<open>2\<^sup>-\<^sup>1\<^sup>1\<close> above the top face of the cube and points straight down,
  \<open>scene_intersect\<close> reports a hit, and the accepted distance is \<open>2\<^sup>-\<^sup>1\<^sup>1 < 0.001\<close>.
\<close>

theorem cube_hit_below_epsilon:
  "scene_nearest (vec 0 (1/2048) (- 10)) (vec 0 (- 1) 0) =
     \<lparr>nearest_dist = Fin (1/2048), pt = vec 0 0 (- 10), nrm = vec 0 1 0, mat = water\<rparr> \<and>
   scene_intersect (vec 0 (1/2048) (- 10)) (vec 0 (- 1) 0) =
     (True, vec 0 0 (- 10), vec 0 1 0, water) \<and>
   \<not> fl_gt (Fin (1/2048)) (Fin (1/1000))"
proof -
  let ?o = "vec 0 (1/2048) (- 10)" and ?d = "vec 0 (- 1) 0"
  have p: "plane_test ?o ?d scene_init = scene_init"
    by (simp add: scene_eval fl_eval vec_defs)
  have s: "\<forall>s \<in> set spheres. \<not> fst (ray_sphere_intersect ?o ?d s)"
    by (simp add: spheres_def scene_eval fl_eval vec_defs)
  have c: "ray_cube_intersect ?o ?d cube = (True, Fin (1/2048), vec 0 1 0)"
    by (simp add: cube_def scene_eval fl_eval vec_defs)
  have n: "scene_nearest ?o ?d =
     \<lparr>nearest_dist = Fin (1/2048), pt = vec 0 0 (- 10), nrm = vec 0 1 0, mat = water\<rparr>"
    unfolding scene_nearest_def p foldl_sphere_test_miss [OF s]
    by (simp add: cube_test_def c) (simp add: scene_init_def cube_def fl_eval vec_defs)
  show ?thesis
    unfolding scene_intersect_def n by (simp add: fl_eval)
qed

theorem cube_hit_below_epsilon_witness:
  "fst (scene_intersect (vec 0 (1/2048) (- 10)) (vec 0 (- 1) 0)) \<and>
   fl_lt (nearest_dist (scene_nearest (vec 0 (1/2048) (- 10)) (vec 0 (- 1) 0))) (Fin (1/1000))"
  using cube_hit_below_epsilon by (simp add: fl_eval)

section \<open>Scene intersection: the nearest candidate\<close>

lemma fl_le_refl: "a \<noteq> NaN \<Longrightarrow> fl_le a a"
  by (cases a) (simp_all add: fl_le_def fl_eq_def)

lemma fl_le_total: "a \<noteq> NaN \<Longrightarrow> b \<noteq> NaN \<Longrightarrow> \<not> fl_lt a b \<Longrightarrow> fl_le b a"
  by (cases a; cases b) (auto simp: fl_le_def fl_eq_def fl_lt_def)

lemma fl_lt_le: "fl_lt a b \<Longrightarrow> fl_le a b"
  by (simp add: fl_le_def)

lemma fl_le_trans: "fl_le a b \<Longrightarrow> fl_le b c \<Longrightarrow> fl_le a c"
  by (cases a; cases b; cases c) (auto simp: fl_le_def fl_eq_def fl_lt_def split: if_splits)

lemma fl_lt_NaN [simp]: "\<not> fl_lt a NaN" "\<not> fl_lt NaN a"
  by (simp_all add: fl_lt_def)

lemma fl_abs_lt: "fl_lt (fl_abs a) (Fin b) \<longleftrightarrow> fl_lt (Fin (- b)) a \<and> fl_lt a (Fin b)"
  by (cases a) (auto simp: fl_lt_def)

lemma least_keep:
  "least n cs \<Longrightarrow> fl_le n d \<Longrightarrow> least n (cs @ [d])"
  by (simp add: least_def)

lemma least_replace:
  "least n cs \<Longrightarrow> fl_le d n \<Longrightarrow> d \<noteq> NaN \<Longrightarrow> least d (cs @ [d])"
  by (auto simp: least_def list_all_iff fl_le_refl intro: fl_le_trans)

lemma least_not_nan: "least n cs \<Longrightarrow> NaN \<notin> set cs \<Longrightarrow> n \<noteq> NaN"
  by (auto simp: least_def)

lemma sphere_hit_gt:
  "ray_sphere_intersect orig dir s = (True, t) \<Longrightarrow> fl_gt t (Fin (1/1000))"
  by (auto simp: ray_sphere_intersect_def Let_def split: if_splits)

lemma cube_hit_gt:
  "ray_cube_intersect orig dir c = (True, t, n) \<Longrightarrow> fl_gt t (Fin 0)"
  by (auto simp: ray_cube_intersect_def cube_miss_def Let_def split: if_splits prod.splits)

lemma sphere_hits_not_nan: "NaN \<notin> set (sphere_hits orig dir s)"
  using sphere_hit_gt [of orig dir s]
  by (cases "ray_sphere_intersect orig dir s") (auto simp: sphere_hits_def fl_gt_def)

lemma cube_hits_not_nan: "NaN \<notin> set (cube_hits orig dir)"
  using cube_hit_gt [of orig dir cube]
  by (cases "ray_cube_intersect orig dir cube") (auto simp: cube_hits_def fl_gt_def)

lemma plane_hits_not_nan: "NaN \<notin> set (plane_hits orig dir)"
  by (auto simp: plane_hits_def fl_gt_def)

lemma plane_test_least:
  "least (nearest_dist (plane_test orig dir scene_init)) (Fin 10000000000 # plane_hits orig dir)"
proof -
  have init: "nearest_dist scene_init = Fin 10000000000"
    by (simp add: scene_init_def)
  show ?thesis
  proof (cases "plane_hits orig dir = []")
    case True
    then have "plane_test orig dir scene_init = scene_init"
      by (auto simp: plane_test_def plane_hits_def plane_dist_def plane_point_def Let_def fl_abs_lt
          fl_gt_def split: if_splits)
    then show ?thesis using True by (simp add: least_def init fl_le_refl)
  next
    case False
    then have hits: "plane_hits orig dir = [plane_dist orig dir]"
      and nn: "plane_dist orig dir \<noteq> NaN"
      using plane_hits_not_nan [of orig dir] by (auto simp: plane_hits_def split: if_splits)
    show ?thesis
    proof (cases "fl_lt (plane_dist orig dir) (Fin 10000000000)")
      case True
      with False have "nearest_dist (plane_test orig dir scene_init) = plane_dist orig dir"
        by (auto simp: plane_test_def plane_hits_def plane_dist_def plane_point_def Let_def
            fl_abs_lt fl_gt_def init split: if_splits)
      then show ?thesis using True nn by (simp add: hits least_def fl_le_refl fl_lt_le)
    next
      case far: False
      then have "nearest_dist (plane_test orig dir scene_init) = Fin 10000000000"
        by (auto simp: plane_test_def plane_dist_def Let_def init)
      then show ?thesis using far nn by (simp add: hits least_def fl_le_refl fl_le_total)
    qed
  qed
qed

lemma sphere_test_least:
  assumes "least (nearest_dist st) cs" "NaN \<notin> set cs"
  shows "least (nearest_dist (sphere_test orig dir st s)) (cs @ sphere_hits orig dir s)"
proof (cases "ray_sphere_intersect orig dir s")
  case (Pair h t)
  show ?thesis
  proof (cases h)
    case False
    with Pair assms show ?thesis by (simp add: sphere_test_def sphere_hits_def)
  next
    case True
    with Pair have tn: "t \<noteq> NaN"
      using sphere_hit_gt [of orig dir s t] by (auto simp: fl_gt_def)
    have nn: "nearest_dist st \<noteq> NaN" using assms by (rule least_not_nan)
    show ?thesis
    proof (cases "fl_gt t (nearest_dist st)")
      case gt: True
      with Pair True assms show ?thesis
        by (simp add: sphere_test_def sphere_hits_def least_keep fl_lt_le fl_gt_def)
    next
      case le: False
      then have "fl_le t (nearest_dist st)"
        using fl_le_total [OF nn tn] by (simp add: fl_gt_def)
      with Pair True le assms tn show ?thesis
        by (simp add: sphere_test_def sphere_hits_def least_replace Let_def)
    qed
  qed
qed

lemma foldl_sphere_test_least:
  assumes "least (nearest_dist st) cs" "NaN \<notin> set cs"
  shows "least (nearest_dist (foldl (sphere_test orig dir) st ss))
           (cs @ concat (map (sphere_hits orig dir) ss))"
  using assms
proof (induction ss arbitrary: st cs)
  case Nil
  then show ?case by simp
next
  case (Cons s ss)
  have "least (nearest_dist (foldl (sphere_test orig dir) (sphere_test orig dir st s) ss))
          ((cs @ sphere_hits orig dir s) @ concat (map (sphere_hits orig dir) ss))"
    using Cons.prems sphere_hits_not_nan
    by (intro Cons.IH sphere_test_least) auto
  then show ?case by simp
qed

lemma cube_test_least:
  assumes "least (nearest_dist st) cs" "NaN \<notin> set cs"
  shows "least (nearest_dist (cube_test orig dir st)) (cs @ cube_hits orig dir)"
proof (cases "ray_cube_intersect orig dir cube")
  case (fields h t n)
  show ?thesis
  proof (cases h)
    case False
    with fields assms show ?thesis by (simp add: cube_test_def cube_hits_def)
  next
    case True
    with fields have tn: "t \<noteq> NaN"
      using cube_hit_gt [of orig dir cube t n] by (auto simp: fl_gt_def)
    have nn: "nearest_dist st \<noteq> NaN" using assms by (rule least_not_nan)
    show ?thesis
    proof (cases "fl_lt t (nearest_dist st)")
      case lt: True
      with fields True assms tn show ?thesis
        by (simp add: cube_test_def cube_hits_def least_replace fl_lt_le)
    next
      case ge: False
      then have "fl_le (nearest_dist st) t"
        using fl_le_total [OF tn nn] by simp
      with fields True ge assms show ?thesis
        by (simp add: cube_test_def cube_hits_def least_keep)
    qed
  qed
qed

lemma scene_nearest_least: "least (nearest_dist (scene_nearest orig dir)) (candidates orig dir)"
proof -
  have 1: "NaN \<notin> set (Fin 10000000000 # plane_hits orig dir)"
    using plane_hits_not_nan by simp
  have 2: "NaN \<notin> set ((Fin 10000000000 # plane_hits orig dir) @
              concat (map (sphere_hits orig dir) spheres))"
    using 1 sphere_hits_not_nan by auto
  have "least (nearest_dist (scene_nearest orig dir))
          (((Fin 10000000000 # plane_hits orig dir) @ concat (map (sphere_hits orig dir) spheres)) @
             cube_hits orig dir)"
    unfolding scene_nearest_def
    by (intro cube_test_least foldl_sphere_test_least plane_test_least 1 2)
  then show ?thesis by (simp add: candidates_def)
qed

text \<open>
  What does hold of the accepted distances: the plane and the spheres contribute only
  distances above the epsilon, the box every positive distance.
\<close>

lemma accepted_distances:
  "list_all (\<lambda>t. fl_gt t (Fin (1/1000))) (plane_hits orig dir)"
  "list_all (\<lambda>t. fl_gt t (Fin (1/1000))) (sphere_hits orig dir s)"
  "list_all (\<lambda>t. fl_gt t (Fin 0)) (cube_hits orig dir)"
proof -
  show "list_all (\<lambda>t. fl_gt t (Fin (1/1000))) (plane_hits orig dir)"
    by (simp add: plane_hits_def)
  show "list_all (\<lambda>t. fl_gt t (Fin (1/1000))) (sphere_hits orig dir s)"
    using sphere_hit_gt [of orig dir s]
    by (cases "ray_sphere_intersect orig dir s") (simp add: sphere_hits_def)
  show "list_all (\<lambda>t. fl_gt t (Fin 0)) (cube_hits orig dir)"
    using cube_hit_gt [of orig dir cube]
    by (cases "ray_cube_intersect orig dir cube") (simp add: cube_hits_def)
qed

lemma fl_le_lt_trans: "fl_le a b \<Longrightarrow> fl_lt b c \<Longrightarrow> fl_lt a c"
  by (cases a; cases b; cases c) (auto simp: fl_le_def fl_eq_def fl_lt_def split: if_splits)

text \<open>
  C2.  For every ray origin and direction, the distance that \<open>scene_intersect\<close> ends
  with is the smallest of the candidates: the sentinel \<open>10\<^sup>1\<^sup>0\<close>, the bounded ground plane
  (tested only when \<open>|dir.y| > 0.001\<close>, accepted only with \<open>x\<close> in \<open>(- 12, 12)\<close> and \<open>z\<close> in
  \<open>(- 28, - 12)\<close>), every sphere and the box; and the returned hit flag is true if and
  only if that distance is strictly less than 1000.
\<close>

theorem scene_intersect_nearest:
  "nearest_dist (scene_nearest orig dir) \<in> set (candidates orig dir) \<and>
   list_all (fl_le (nearest_dist (scene_nearest orig dir))) (candidates orig dir) \<and>
   fst (scene_intersect orig dir) = fl_lt (nearest_dist (scene_nearest orig dir)) (Fin 1000)"
  using scene_nearest_least [of orig dir] by (simp add: least_def scene_intersect_def Let_def)

theorem scene_intersect_nearest_witness:
  "candidates (vec (- 8) 5 (- 13)) (vec 0 (- 1) 0) = [Fin 10000000000, Fin 8] \<and>
   nearest_dist (scene_nearest (vec (- 8) 5 (- 13)) (vec 0 (- 1) 0)) \<in> {Fin 10000000000, Fin 8} \<and>
   fl_le (nearest_dist (scene_nearest (vec (- 8) 5 (- 13)) (vec 0 (- 1) 0))) (Fin 8) \<and>
   fst (scene_intersect (vec (- 8) 5 (- 13)) (vec 0 (- 1) 0))"
proof -
  let ?o = "vec (- 8) 5 (- 13)" and ?d = "vec 0 (- 1) 0"
  have p: "plane_hits ?o ?d = [Fin 8]"
    by (simp add: plane_hits_def plane_dist_def plane_point_def fl_eval vec_defs)
  have s: "concat (map (sphere_hits ?o ?d) spheres) = []"
    by (simp add: spheres_def sphere_hits_def scene_eval fl_eval vec_defs)
  have c: "cube_hits ?o ?d = []"
    by (simp add: cube_hits_def cube_def scene_eval fl_eval vec_defs)
  have cands: "candidates ?o ?d = [Fin 10000000000, Fin 8]"
    by (simp add: candidates_def p s c)
  note main = scene_intersect_nearest [of ?o ?d, unfolded cands]
  from main have le: "fl_le (nearest_dist (scene_nearest ?o ?d)) (Fin 8)" by simp
  then have "fl_lt (nearest_dist (scene_nearest ?o ?d)) (Fin 1000)"
    by (rule fl_le_lt_trans) (simp add: fl_eval)
  with main le cands show ?thesis by simp
qed

section \<open>The ground plane as nearest hit\<close>

lemma plane_test_accept:
  assumes "plane_hits orig dir \<noteq> []" "fl_lt (plane_dist orig dir) (Fin 10000000000)"
  shows "plane_test orig dir scene_init =
           \<lparr>nearest_dist = plane_dist orig dir, pt = plane_point orig dir, nrm = vec 0 1 0,
            mat = default_Material\<lparr>diffuse_color := checker (plane_point orig dir)\<rparr>\<rparr>"
  using assms
  by (auto simp: plane_test_def plane_hits_def plane_dist_def plane_point_def Let_def fl_abs_lt
      fl_gt_def scene_init_def split: if_splits)

lemma fl_lt_asym: "fl_lt a b \<Longrightarrow> \<not> fl_lt b a"
  by (cases a; cases b) (auto simp: fl_lt_def split: if_splits)

lemma fl_le_not_lt: "fl_le a b \<Longrightarrow> \<not> fl_lt b a"
  by (cases a; cases b) (auto simp: fl_le_def fl_eq_def fl_lt_def split: if_splits)

lemma sphere_test_farther:
  "list_all (fl_lt (nearest_dist st)) (sphere_hits orig dir s) \<Longrightarrow> sphere_test orig dir st s = st"
  by (cases "ray_sphere_intersect orig dir s")
     (auto simp: sphere_test_def sphere_hits_def fl_gt_def split: if_splits)

lemma foldl_sphere_test_farther:
  "list_all (fl_lt (nearest_dist st)) (concat (map (sphere_hits orig dir) ss)) \<Longrightarrow>
   foldl (sphere_test orig dir) st ss = st"
  by (induction ss arbitrary: st) (simp_all add: sphere_test_farther)

lemma cube_test_farther:
  "list_all (fl_le (nearest_dist st)) (cube_hits orig dir) \<Longrightarrow> cube_test orig dir st = st"
  by (cases "ray_cube_intersect orig dir cube")
     (auto simp: cube_test_def cube_hits_def dest: fl_le_not_lt split: if_splits)

lemma plane_nearest_state:
  assumes "plane_nearest orig dir"
  shows "scene_nearest orig dir =
           \<lparr>nearest_dist = plane_dist orig dir, pt = plane_point orig dir, nrm = vec 0 1 0,
            mat = default_Material\<lparr>diffuse_color := checker (plane_point orig dir)\<rparr>\<rparr>"
proof -
  let ?st = "\<lparr>nearest_dist = plane_dist orig dir, pt = plane_point orig dir, nrm = vec 0 1 0,
            mat = default_Material\<lparr>diffuse_color := checker (plane_point orig dir)\<rparr>\<rparr>"
  have p: "plane_test orig dir scene_init = ?st"
    using assms by (intro plane_test_accept) (simp_all add: plane_nearest_def)
  have s: "foldl (sphere_test orig dir) ?st spheres = ?st"
    using assms by (intro foldl_sphere_test_farther) (simp add: plane_nearest_def)
  have c: "cube_test orig dir ?st = ?st"
    using assms by (intro cube_test_farther) (simp add: plane_nearest_def)
  show ?thesis by (simp only: scene_nearest_def p s c)
qed

lemma plane_nearest_material:
  assumes "plane_nearest orig dir"
  shows "snd (snd (snd (scene_intersect orig dir))) =
           default_Material\<lparr>diffuse_color := checker (plane_point orig dir)\<rparr>"
  by (simp add: scene_intersect_def Let_def plane_nearest_state [OF assms])




lemma shade_default:
  assumes "is_fin s" "is_fin (vx rc)" "is_fin (vy rc)" "is_fin (vz rc)"
    "is_fin (vx fc)" "is_fin (vy fc)" "is_fin (vz fc)"
  shows "shade (default_Material\<lparr>diffuse_color := checker p\<rparr>) (Fin d, s) rc fc =
           vscale (vscale (checker p) (Fin d)) (Fin 2)"
proof -
  have z: "\<And>a c. is_fin c \<Longrightarrow> fl_add (Fin a) (fl_mul c (Fin 0)) = Fin a"
    by (erule fin_cases) (auto simp: fl_eval)
  have m: "\<And>a. 0 < a \<Longrightarrow> fl_mul (fl_mul (Fin a) (Fin d)) (Fin 2) = Fin (a * d * 2)"
    by (auto simp: fl_eval mult_less_0_iff)
  have one: "is_fin (fl_mul (Fin 1) s)"
    using assms(1) by simp
  show ?thesis
    using assms one
    by (simp add: shade_def default_Material_def checker_def vscale_def vadd_def vec_def m z)
qed

text \<open>A ray straight down onto the plane, past every sphere and the box.\<close>

lemma down_ray_plane_nearest: "plane_nearest (vec (- 8) 5 (- 13)) (vec 0 (- 1) 0)"
proof -
  let ?o = "vec (- 8) 5 (- 13)" and ?d = "vec 0 (- 1) 0"
  have p: "plane_hits ?o ?d = [Fin 8]" and d: "plane_dist ?o ?d = Fin 8"
    by (simp_all add: plane_hits_def plane_dist_def plane_point_def fl_eval vec_defs)
  have s: "concat (map (sphere_hits ?o ?d) spheres) = []"
    by (simp add: spheres_def sphere_hits_def scene_eval fl_eval vec_defs)
  have c: "cube_hits ?o ?d = []"
    by (simp add: cube_hits_def cube_def scene_eval fl_eval vec_defs)
  show ?thesis
    by (simp add: plane_nearest_def p d s c fl_eval)
qed

lemma down_ray_plane_point:
  "plane_point (vec (- 8) 5 (- 13)) (vec 0 (- 1) 0) = vec (- 8) (- 3) (- 13)"
  by (simp add: plane_dist_def plane_point_def fl_eval vec_defs)

lemma down_ray_checker: "checker (vec (- 8) (- 3) (- 13)) = vec (4/10) (3/10) (2/10)"
  by (simp add: checker_def fl_to_int_def truncate_real_def fl_eval vec_def)




text \<open>
  C10.  When the ground plane is the nearest hit, the material returned by
  \<open>scene_intersect\<close> is the default-constructed material with only the diffuse colour
  replaced by the checker shade: refractive index 1, albedo \<open>{2, 0, 0, 0}\<close> and specular
  exponent 0.  With this material the shaded colour is twice the diffuse term: finite
  specular, reflected and refracted contributions are multiplied by zero.
\<close>

theorem plane_material:
  assumes "plane_nearest orig dir"
  shows "snd (snd (snd (scene_intersect orig dir))) =
           default_Material\<lparr>diffuse_color := checker (plane_point orig dir)\<rparr> \<and>
         refractive_index (snd (snd (snd (scene_intersect orig dir)))) = Fin 1 \<and>
         albedo (snd (snd (snd (scene_intersect orig dir)))) = [Fin 2, Fin 0, Fin 0, Fin 0] \<and>
         specular_exponent (snd (snd (snd (scene_intersect orig dir)))) = Fin 0 \<and>
         (is_fin s \<and> is_fin (vx rc) \<and> is_fin (vy rc) \<and> is_fin (vz rc) \<and>
          is_fin (vx fc) \<and> is_fin (vy fc) \<and> is_fin (vz fc) \<longrightarrow>
            shade (snd (snd (snd (scene_intersect orig dir)))) (Fin d, s) rc fc =
              vscale (vscale (checker (plane_point orig dir)) (Fin d)) (Fin 2))"
  using shade_default [of s rc fc "plane_point orig dir" d]
  by (simp add: plane_nearest_material [OF assms] default_Material_def)

theorem plane_material_witness:
  "plane_nearest (vec (- 8) 5 (- 13)) (vec 0 (- 1) 0) \<and>
   is_fin (Fin 1) \<and> is_fin (vx background) \<and> is_fin (vy background) \<and> is_fin (vz background) \<and>
   snd (snd (snd (scene_intersect (vec (- 8) 5 (- 13)) (vec 0 (- 1) 0)))) =
     \<lparr>refractive_index = Fin 1, albedo = [Fin 2, Fin 0, Fin 0, Fin 0],
      diffuse_color = vec (4/10) (3/10) (2/10), specular_exponent = Fin 0\<rparr> \<and>
   shade (snd (snd (snd (scene_intersect (vec (- 8) 5 (- 13)) (vec 0 (- 1) 0)))))
     (Fin 1, Fin 1) background background = vec (8/10) (6/10) (4/10)"
proof -
  note main = plane_material [OF down_ray_plane_nearest, of "Fin 1" background background 1,
      unfolded down_ray_plane_point down_ray_checker]
  have fin: "is_fin (Fin 1) \<and> is_fin (vx background) \<and> is_fin (vy background) \<and>
      is_fin (vz background)"
    by (simp add: background_def vec_def)
  have v: "vscale (vscale (vec (2/5) (3/10) (1/5)) (Fin 1)) (Fin 2) = vec (4/5) (3/5) (2/5)"
    by (simp add: vec_defs fl_eval)
  have dm: "default_Material\<lparr>diffuse_color := vec (2/5) (3/10) (1/5)\<rparr> =
      \<lparr>refractive_index = Fin 1, albedo = [Fin 2, Fin 0, Fin 0, Fin 0],
       diffuse_color = vec (2/5) (3/10) (1/5), specular_exponent = Fin 0\<rparr>"
    by (simp add: default_Material_def)
  from main fin have 1: "snd (snd (snd (scene_intersect (vec (- 8) 5 (- 13)) (vec 0 (- 1) 0)))) =
      default_Material\<lparr>diffuse_color := vec (4/10) (3/10) (2/10)\<rparr>"
    and 2: "shade (snd (snd (snd (scene_intersect (vec (- 8) 5 (- 13)) (vec 0 (- 1) 0)))))
      (Fin 1, Fin 1) background background =
      vscale (vscale (vec (4/10) (3/10) (2/10)) (Fin 1)) (Fin 2)"
    by blast+
  have 3: "shade (snd (snd (snd (scene_intersect (vec (- 8) 5 (- 13)) (vec 0 (- 1) 0)))))
      (Fin 1, Fin 1) background background = vec (4/5) (3/5) (2/5)"
    using 2 by (simp add: v)
  have 4: "snd (snd (snd (scene_intersect (vec (- 8) 5 (- 13)) (vec 0 (- 1) 0)))) =
      \<lparr>refractive_index = Fin 1, albedo = [Fin 2, Fin 0, Fin 0, Fin 0],
       diffuse_color = vec (2/5) (3/10) (1/5), specular_exponent = Fin 0\<rparr>"
    using 1 by (simp add: dm)
  show ?thesis
    using down_ray_plane_nearest fin 3 by (simp add: 4)
qed

section \<open>Box intersection\<close>

lemmas cube_words = axis_interval_def x_interval_def y_interval_def z_interval_def xy_tmin_def
  xy_tmax_def cube_tmin_def shown_disjoint_def

lemma cube_structure:
  "ray_cube_intersect orig dir c =
     (if shown_disjoint orig dir c \<or> \<not> fl_gt (cube_tmin orig dir c) (Fin 0) then cube_miss
      else (True, cube_tmin orig dir c, snd (snd (ray_cube_intersect orig dir c))))"
  by (simp add: ray_cube_intersect_def cube_words Let_def split_beta)

lemma cube_tmin_cases:
  "cube_tmin orig dir c \<in> {fst (x_interval orig dir c), fst (y_interval orig dir c),
     fst (z_interval orig dir c)}"
  by (simp add: cube_tmin_def xy_tmin_def)

text \<open>One axis, with the origin strictly between the two bounds.\<close>

lemma straddle_near:
  fixes a b :: real
  assumes "a < 0" "0 < b"
  shows "\<not> fl_gt (fst (swap_gt (fl_div (Fin a) dc, fl_div (Fin b) dc))) (Fin 0)"
proof (cases dc)
  case (Fin x)
  consider "x = 0" | "0 < x" | "x < 0" by linarith
  then show ?thesis
  proof cases
    case 1
    with Fin assms show ?thesis by (simp add: swap_gt_def fl_eval)
  next
    case 2
    with assms have "a / x < 0" "\<not> b / x < a / x"
      by (simp_all add: divide_less_0_iff divide_strict_right_mono not_less divide_right_mono)
    with Fin 2 assms show ?thesis by (simp add: swap_gt_def fl_eval)
  next
    case 3
    with assms have "b / x < 0" "b / x < a / x"
      by (simp_all add: divide_less_0_iff divide_strict_right_mono_neg)
    with Fin 3 assms show ?thesis by (simp add: swap_gt_def fl_eval)
  qed
next
  case NZero
  with assms show ?thesis by (simp add: swap_gt_def fl_eval)
next
  case PInf
  with assms show ?thesis by (simp add: swap_gt_def fl_div_def signed_zero_def fl_eval)
next
  case MInf
  with assms show ?thesis by (simp add: swap_gt_def fl_div_def signed_zero_def fl_eval)
next
  case NaN
  then show ?thesis by (simp add: swap_gt_def fl_div_def fl_eval)
qed

lemma axis_inside:
  fixes cc sz oc :: real
  assumes "cc - sz / 2 < oc" "oc < cc + sz / 2"
  shows "\<not> fl_gt (fst (axis_interval (Fin cc) (Fin sz) (Fin oc) dc)) (Fin 0)"
proof -
  have lo: "fl_sub (fl_sub (Fin cc) (fl_div (Fin sz) (Fin 2))) (Fin oc) = Fin (cc - sz / 2 - oc)"
    by (simp add: fl_eval)
  have hi: "fl_sub (fl_add (Fin cc) (fl_div (Fin sz) (Fin 2))) (Fin oc) = Fin (cc + sz / 2 - oc)"
    by (simp add: fl_eval)
  have "cc - sz / 2 - oc < 0" "0 < cc + sz / 2 - oc"
    using assms by simp_all
  then show ?thesis
    unfolding axis_interval_def slab_lo_def slab_hi_def lo hi by (rule straddle_near)
qed

lemma cube_inside_miss:
  fixes cx cy cz sz ox oy oz :: real
  assumes "cx - sz / 2 < ox" "ox < cx + sz / 2"
    and "cy - sz / 2 < oy" "oy < cy + sz / 2"
    and "cz - sz / 2 < oz" "oz < cz + sz / 2"
  shows "ray_cube_intersect (vec ox oy oz) dir \<lparr>Cube.center = vec cx cy cz, size = Fin sz, material = m\<rparr>
           = cube_miss"
proof -
  let ?o = "vec ox oy oz" and ?c = "\<lparr>Cube.center = vec cx cy cz, size = Fin sz, material = m\<rparr>"
  have "\<not> fl_gt (fst (x_interval ?o dir ?c)) (Fin 0)"
    "\<not> fl_gt (fst (y_interval ?o dir ?c)) (Fin 0)"
    "\<not> fl_gt (fst (z_interval ?o dir ?c)) (Fin 0)"
    using assms by (simp_all add: x_interval_def y_interval_def z_interval_def vec_def axis_inside)
  then have "\<not> fl_gt (cube_tmin ?o dir ?c) (Fin 0)"
    using cube_tmin_cases [of ?o dir ?c] by auto
  then show ?thesis by (subst cube_structure) simp
qed

text \<open>
  When none of the six slab parameters is NaN, the comparisons order them totally: a
  ray that is not shown to miss has its combined \<open>tmin\<close> below the far value of every
  axis, so a box that lies behind the origin on some axis is not reported.
\<close>

lemma not_gt_le: "a \<noteq> NaN \<Longrightarrow> b \<noteq> NaN \<Longrightarrow> \<not> fl_gt a b \<Longrightarrow> fl_le a b"
  using fl_le_total [of b a] by (simp add: fl_gt_def)

lemma swap_gt_ordered:
  "a \<noteq> NaN \<Longrightarrow> b \<noteq> NaN \<Longrightarrow> fl_le (fst (swap_gt (a, b))) (snd (swap_gt (a, b)))"
  by (auto simp: swap_gt_def fl_gt_def fl_lt_le not_gt_le)

lemma swap_gt_not_nan:
  "a \<noteq> NaN \<Longrightarrow> b \<noteq> NaN \<Longrightarrow> fst (swap_gt (a, b)) \<noteq> NaN \<and> snd (swap_gt (a, b)) \<noteq> NaN"
  by (simp add: swap_gt_def)



lemma cube_tmin_le_far:
  assumes nn: "no_nan_slab orig dir c" and nd: "\<not> shown_disjoint orig dir c"
  shows "fl_le (cube_tmin orig dir c) (snd (x_interval orig dir c))"
    and "fl_le (cube_tmin orig dir c) (snd (y_interval orig dir c))"
    and "fl_le (cube_tmin orig dir c) (snd (z_interval orig dir c))"
proof -
  let ?nx = "fst (x_interval orig dir c)" and ?fx = "snd (x_interval orig dir c)"
  let ?ny = "fst (y_interval orig dir c)" and ?fy = "snd (y_interval orig dir c)"
  let ?nz = "fst (z_interval orig dir c)" and ?fz = "snd (z_interval orig dir c)"
  have n: "?nx \<noteq> NaN" "?fx \<noteq> NaN" "?ny \<noteq> NaN" "?fy \<noteq> NaN" "?nz \<noteq> NaN" "?fz \<noteq> NaN"
    using nn swap_gt_not_nan
    by (simp_all add: no_nan_slab_def x_interval_def y_interval_def z_interval_def axis_interval_def)
  have o: "fl_le ?nx ?fx" "fl_le ?ny ?fy" "fl_le ?nz ?fz"
    using nn swap_gt_ordered
    by (simp_all add: no_nan_slab_def x_interval_def y_interval_def z_interval_def axis_interval_def)
  have xy: "fl_le ?nx ?fy" "fl_le ?ny ?fx"
    using nd n by (simp_all add: shown_disjoint_def not_gt_le)
  have m: "xy_tmin orig dir c \<noteq> NaN" "xy_tmax orig dir c \<noteq> NaN"
    using n by (simp_all add: xy_tmin_def xy_tmax_def)
  have mx: "fl_le (xy_tmin orig dir c) ?fx" "fl_le (xy_tmin orig dir c) ?fy"
    using o xy by (simp_all add: xy_tmin_def)
  have tx: "fl_le (xy_tmax orig dir c) ?fx" "fl_le (xy_tmax orig dir c) ?fy"
    using n by (auto simp: xy_tmax_def fl_le_refl fl_lt_le fl_le_total)
  have z: "fl_le (xy_tmin orig dir c) ?fz" "fl_le ?nz (xy_tmax orig dir c)"
    using nd n m by (simp_all add: shown_disjoint_def not_gt_le)
  show "fl_le (cube_tmin orig dir c) ?fx"
    using mx z tx by (auto simp: cube_tmin_def intro: fl_le_trans)
  show "fl_le (cube_tmin orig dir c) ?fy"
    using mx z tx by (auto simp: cube_tmin_def intro: fl_le_trans)
  show "fl_le (cube_tmin orig dir c) ?fz"
    using z o by (auto simp: cube_tmin_def)
qed

lemma cube_behind_miss:
  assumes "no_nan_slab orig dir c"
    and "fl_lt (snd (x_interval orig dir c)) (Fin 0) \<or> fl_lt (snd (y_interval orig dir c)) (Fin 0) \<or>
         fl_lt (snd (z_interval orig dir c)) (Fin 0)"
  shows "ray_cube_intersect orig dir c = cube_miss"
proof (cases "shown_disjoint orig dir c")
  case True
  then show ?thesis by (subst cube_structure) simp
next
  case False
  have "fl_lt (cube_tmin orig dir c) (Fin 0)"
    using assms(2) cube_tmin_le_far [OF assms(1) False] by (auto intro: fl_le_lt_trans)
  then have "\<not> fl_gt (cube_tmin orig dir c) (Fin 0)"
    by (simp add: fl_gt_def fl_lt_asym)
  then show ?thesis by (subst cube_structure) simp
qed

text \<open>
  C4 (as stated, refuted).  A box that lies behind the origin can be reported as a hit
  when a slab parameter is NaN.  The ray from \<open>(1, 1, - 12)\<close> straight up lies in the
  plane of the face \<open>x = 1\<close> of the box and has \<open>dir.x = 0\<close>, so that one \<open>x\<close> parameter
  is \<open>0 / 0\<close>; the box is below the origin, and both \<open>y\<close> parameters are negative.  The
  NaN stays in \<open>tmax\<close>, every later comparison with it is false, and the routine
  reports a hit at distance \<open>+\<infinity>\<close>.  From \<open>(1, 100, - 8)\<close> along \<open>(0, 0.8, - 0.6)\<close> the
  reported distance is finite.
\<close>

theorem cube_behind_counterexample:
  "fl_lt (snd (y_interval (vec 1 1 (- 12)) (vec 0 1 0) cube)) (Fin 0) \<and>
   ray_cube_intersect (vec 1 1 (- 12)) (vec 0 1 0) cube = (True, PInf, vec 0 0 1) \<and>
   fl_lt (snd (y_interval (vec 1 100 (- 8)) (vec 0 (4/5) (- (3/5))) cube)) (Fin 0) \<and>
   ray_cube_intersect (vec 1 100 (- 8)) (vec 0 (4/5) (- (3/5))) cube =
     (True, Fin (5/3), vec 0 0 1)"
  by (simp add: cube_def y_interval_def axis_interval_def scene_eval fl_eval vec_defs)

text \<open>
  C4 (amended).  For every ray and the axis-aligned box, \<open>ray_cube_intersect\<close> computes
  the slab parameters of each axis, a zero direction component giving infinities; it
  returns no hit whenever one of its interval comparisons shows the intervals
  disjoint or the combined \<open>tmin\<close> is not greater than 0, and a hit at distance \<open>tmin\<close>
  otherwise.  A ray whose origin is strictly inside the box is never reported as a
  hit; and when no slab parameter is NaN, a ray that leaves the slab of some axis
  before its origin (the box lies behind the origin) is never reported as a hit.
\<close>

theorem ray_cube_intersect_cases:
  fixes cx cy cz sz ox oy oz :: real
  shows
  "(shown_disjoint orig dir c \<or> \<not> fl_gt (cube_tmin orig dir c) (Fin 0) \<longrightarrow>
      ray_cube_intersect orig dir c = cube_miss) \<and>
   (\<not> shown_disjoint orig dir c \<and> fl_gt (cube_tmin orig dir c) (Fin 0) \<longrightarrow>
      fst (ray_cube_intersect orig dir c) \<and>
      fst (snd (ray_cube_intersect orig dir c)) = cube_tmin orig dir c) \<and>
   (cx - sz / 2 < ox \<and> ox < cx + sz / 2 \<and> cy - sz / 2 < oy \<and> oy < cy + sz / 2 \<and>
    cz - sz / 2 < oz \<and> oz < cz + sz / 2 \<longrightarrow>
      ray_cube_intersect (vec ox oy oz) dir
        \<lparr>Cube.center = vec cx cy cz, size = Fin sz, material = m\<rparr> = cube_miss) \<and>
   (no_nan_slab orig dir c \<and>
    (fl_lt (snd (x_interval orig dir c)) (Fin 0) \<or> fl_lt (snd (y_interval orig dir c)) (Fin 0) \<or>
     fl_lt (snd (z_interval orig dir c)) (Fin 0)) \<longrightarrow>
      ray_cube_intersect orig dir c = cube_miss)"
proof -
  have 1: "shown_disjoint orig dir c \<or> \<not> fl_gt (cube_tmin orig dir c) (Fin 0) \<longrightarrow>
      ray_cube_intersect orig dir c = cube_miss"
    by (subst cube_structure) simp
  have 2: "\<not> shown_disjoint orig dir c \<and> fl_gt (cube_tmin orig dir c) (Fin 0) \<longrightarrow>
      fst (ray_cube_intersect orig dir c) \<and>
      fst (snd (ray_cube_intersect orig dir c)) = cube_tmin orig dir c"
    by (subst (1 2) cube_structure) simp
  show ?thesis
    using 1 2 cube_inside_miss cube_behind_miss by blast
qed

theorem ray_cube_intersect_cases_witness:
  "shown_disjoint (vec (- 5) 5 (- 10)) (vec 1 0 0) cube \<and>
   ray_cube_intersect (vec (- 5) 5 (- 10)) (vec 1 0 0) cube = cube_miss \<and>
   \<not> shown_disjoint (vec (- 5) (- 1) (- 10)) (vec 1 0 0) cube \<and>
   fl_gt (cube_tmin (vec (- 5) (- 1) (- 10)) (vec 1 0 0) cube) (Fin 0) \<and>
   fst (ray_cube_intersect (vec (- 5) (- 1) (- 10)) (vec 1 0 0) cube) \<and>
   fst (snd (ray_cube_intersect (vec (- 5) (- 1) (- 10)) (vec 1 0 0) cube)) = Fin 4 \<and>
   ray_cube_intersect (vec 0 (- 1) (- 10)) (vec 1 0 0)
     \<lparr>Cube.center = vec 0 (- 1) (- 10), size = Fin 2, material = water\<rparr> = cube_miss \<and>
   no_nan_slab (vec 5 (- 1) (- 10)) (vec 1 0 0) cube \<and>
   fl_lt (snd (x_interval (vec 5 (- 1) (- 10)) (vec 1 0 0) cube)) (Fin 0) \<and>
   ray_cube_intersect (vec 5 (- 1) (- 10)) (vec 1 0 0) cube = cube_miss"
proof -
  have a: "shown_disjoint (vec (- 5) 5 (- 10)) (vec 1 0 0) cube"
    by (simp add: cube_words cube_def scene_eval fl_eval vec_defs)
  have b: "\<not> shown_disjoint (vec (- 5) (- 1) (- 10)) (vec 1 0 0) cube"
    and t: "cube_tmin (vec (- 5) (- 1) (- 10)) (vec 1 0 0) cube = Fin 4"
    by (simp_all add: cube_words cube_def scene_eval fl_eval vec_defs)
  have n: "no_nan_slab (vec 5 (- 1) (- 10)) (vec 1 0 0) cube"
    and f: "fl_lt (snd (x_interval (vec 5 (- 1) (- 10)) (vec 1 0 0) cube)) (Fin 0)"
    by (simp_all add: no_nan_slab_def cube_words cube_def scene_eval fl_eval vec_defs)
  have g: "fl_gt (Fin 4) (Fin 0)" by (simp add: fl_eval)
  show ?thesis
    using ray_cube_intersect_cases [where orig = "vec (- 5) 5 (- 10)" and dir = "vec 1 0 0"
        and c = cube and cx = 0 and cy = "- 1" and cz = "- 10" and sz = 2
        and ox = 0 and oy = "- 1" and oz = "- 10" and m = water]
      ray_cube_intersect_cases [where orig = "vec (- 5) (- 1) (- 10)" and dir = "vec 1 0 0"
        and c = cube and cx = 0 and cy = "- 1" and cz = "- 10" and sz = 2
        and ox = 0 and oy = "- 1" and oz = "- 10" and m = water]
      ray_cube_intersect_cases [where orig = "vec 5 (- 1) (- 10)" and dir = "vec 1 0 0"
        and c = cube and cx = 0 and cy = "- 1" and cz = "- 10" and sz = 2
        and ox = 0 and oy = "- 1" and oz = "- 10" and m = water]
    by (simp add: a b t n f g)
qed

section \<open>Normals\<close>



















section \<open>Image output\<close>













section \<open>The recursive shader\<close>





subsection \<open>Finite vectors\<close>

lemma finite_vec_ops [simp]:
  "finite_vec u \<Longrightarrow> finite_vec v \<Longrightarrow> finite_vec (vadd u v)"
  "finite_vec u \<Longrightarrow> finite_vec v \<Longrightarrow> finite_vec (vsub u v)"
  "finite_vec u \<Longrightarrow> is_fin k \<Longrightarrow> finite_vec (vscale u k)"
  "finite_vec u \<Longrightarrow> finite_vec (vneg u)"
  "finite_vec u \<Longrightarrow> finite_vec v \<Longrightarrow> is_fin (vdot u v)"
  "finite_vec (vec a b c)"
  by (simp_all add: finite_vec_def vadd_def vsub_def vscale_def vneg_def vdot_def vec_def)

lemma finite_vec_reflect [simp]: "finite_vec I \<Longrightarrow> finite_vec N \<Longrightarrow> finite_vec (reflect I N)"
  by (simp add: reflect_def)







subsection \<open>A direction of NaNs hits nothing\<close>

lemma nan_ops [simp]:
  "fl_add NaN a = NaN" "fl_add a NaN = NaN" "fl_sub NaN a = NaN" "fl_sub a NaN = NaN"
  "fl_mul NaN a = NaN" "fl_mul a NaN = NaN" "fl_div NaN a = NaN" "fl_div a NaN = NaN"
  "\<not> fl_gt NaN a" "\<not> fl_gt a NaN"
  by (simp_all add: fl_add_def fl_sub_def fl_mul_def fl_div_def fl_gt_def)




subsection \<open>Hits of finite rays\<close>











subsection \<open>Refraction returns on finite arguments\<close>

lemma fl_same_trans: "fl_same a b \<Longrightarrow> fl_same b c \<Longrightarrow> fl_same a c"
  by (auto simp: fl_same_def)

lemma fl_mul_neg: "fl_mul a (fl_neg b) = fl_neg (fl_mul a b)"
  by (cases a; cases b) (auto simp: fl_mul_def fl_of_def signed_zero_def signed_inf_def)

lemma fl_add_neg_same: "fl_same (fl_add (fl_neg a) (fl_neg b)) (fl_neg (fl_add a b))"
  by (cases a; cases b) (auto simp: fl_same_def fl_add_def fl_of_def signed_zero_def)

lemma fl_add_same_cong: "fl_same a a' \<Longrightarrow> fl_same (fl_add a b) (fl_add a' b)"
  by (cases a; cases a'; cases b) (auto simp: fl_same_def fl_add_def fl_of_def signed_zero_def)

lemma vdot_vneg: "fl_same (vdot I (vneg N)) (fl_neg (vdot I N))"
  unfolding vdot_def vneg_def
  by (simp add: fl_mul_neg)
     (blast intro: fl_same_trans fl_add_same_cong fl_add_neg_same)

lemma cosi_flip:
  assumes "fl_same v' (fl_neg v)" "v \<noteq> NaN"
    and "fl_lt (fl_neg (std_max (Fin (- 1)) (std_min (Fin 1) v))) (Fin 0)"
  shows "\<not> fl_lt (fl_neg (std_max (Fin (- 1)) (std_min (Fin 1) v'))) (Fin 0)"
  using assms
  by (cases v; cases v') (auto simp: fl_same_def std_max_def std_min_def fl_lt_def split: if_splits)




lemma refract_direct:
  "\<not> fl_lt (refract_cosi I N) (Fin 0) \<Longrightarrow>
   refract I N eta_t eta_i =
     Some (if fl_lt (refract_k (fl_div eta_i eta_t) (refract_cosi I N)) (Fin 0) then vec 1 0 0
           else vadd (vscale I (fl_div eta_i eta_t))
                  (vscale N (fl_sub (fl_mul (fl_div eta_i eta_t) (refract_cosi I N))
                               (fl_sqrt (refract_k (fl_div eta_i eta_t) (refract_cosi I N))))))"
  by (subst refract.simps) (simp add: Let_def)

lemma refract_flip:
  "fl_lt (refract_cosi I N) (Fin 0) \<Longrightarrow>
   refract I N eta_t eta_i = refract I (vneg N) eta_i eta_t"
  by (subst refract.simps) (simp add: Let_def)

lemma refract_cosi_flip:
  "vdot I N \<noteq> NaN \<Longrightarrow> fl_lt (refract_cosi I N) (Fin 0) \<Longrightarrow>
   \<not> fl_lt (refract_cosi I (vneg N)) (Fin 0)"
  using cosi_flip [OF vdot_vneg] by (simp add: refract_cosi_def)

lemma refract_returns:
  assumes "vdot I N \<noteq> NaN"
  shows "\<exists>v. refract I N eta_t eta_i = Some v"
proof (cases "fl_lt (refract_cosi I N) (Fin 0)")
  case False
  then show ?thesis by (simp add: refract_direct)
next
  case True
  then show ?thesis
    using refract_cosi_flip [OF assms True] by (simp add: refract_flip refract_direct)
qed



lemma std_min_max_finite [simp]:
  "is_fin a \<Longrightarrow> is_fin b \<Longrightarrow> is_fin (std_max a b)"
  "is_fin a \<Longrightarrow> is_fin b \<Longrightarrow> is_fin (std_min a b)"
  by (simp_all add: std_max_def std_min_def)




subsection \<open>Termination of the shader\<close>







end
